theory Spec2Isabelle
  imports Complex_Main "HOL-Library.Sublist"
begin

section \<open>Python values\<close>

text \<open>
  The values the tools handle: what \<open>json.loads\<close> produces and what the MongoDB driver
  returns in documents. A \<open>dict\<close> is an association list, in insertion order, with string
  keys. \<open>PObjectId\<close> carries the text that \<open>str\<close> gives for the identifier. \<open>POther\<close>
  stands for every other driver type (a \<open>datetime\<close>, an \<open>Int64\<close>, \<open>bytes\<close>, ...): its type
  name, an opaque payload and its truth value. A string is a list of code points below 256.
\<close>

datatype pyval =
    PNone
  | PBool bool
  | PInt int
  | PFloat real
  | PStr string
  | PObjectId string
  | POther string string bool
  | PList "pyval list"
  | PDict "(string \<times> pyval) list"

type_synonym document = "(string \<times> pyval) list"

text \<open>Truth value of an object, as \<open>if x\<close>, \<open>not x\<close> and \<open>x or y\<close> test it.\<close>

fun truthy :: "pyval \<Rightarrow> bool" where
  "truthy PNone = False"
| "truthy (PBool b) = b"
| "truthy (PInt i) = (i \<noteq> 0)"
| "truthy (PFloat r) = (r \<noteq> 0)"
| "truthy (PStr s) = (s \<noteq> [])"
| "truthy (PObjectId s) = True"
| "truthy (POther t s b) = b"
| "truthy (PList xs) = (xs \<noteq> [])"
| "truthy (PDict kvs) = (kvs \<noteq> [])"

text \<open>\<open>type(v).__name__\<close>.\<close>

fun type_name :: "pyval \<Rightarrow> string" where
  "type_name PNone = ''NoneType''"
| "type_name (PBool b) = ''bool''"
| "type_name (PInt i) = ''int''"
| "type_name (PFloat r) = ''float''"
| "type_name (PStr s) = ''str''"
| "type_name (PObjectId s) = ''ObjectId''"
| "type_name (POther t s b) = t"
| "type_name (PList xs) = ''list''"
| "type_name (PDict kvs) = ''dict''"

text \<open>\<open>d.get(k)\<close>: the value under the key, \<open>None\<close> when the key is absent.\<close>

definition dict_get :: "document \<Rightarrow> string \<Rightarrow> pyval" where
  "dict_get d k = (case map_of d k of None \<Rightarrow> PNone | Some v \<Rightarrow> v)"

text \<open>\<open>a or b\<close>.\<close>

definition py_or :: "pyval \<Rightarrow> pyval \<Rightarrow> pyval" where
  "py_or a b = (if truthy a then a else b)"

subsection \<open>Strings\<close>

text \<open>\<open>sep.join(xs)\<close>.\<close>

fun join :: "string \<Rightarrow> string list \<Rightarrow> string" where
  "join sep [] = []"
| "join sep [x] = x"
| "join sep (x # y # ys) = x @ sep @ join sep (y # ys)"

text \<open>
  The whitespace \<open>str.strip()\<close> removes: the code points below 256 for which
  \<open>str.isspace\<close> holds, next line (U+0085) and no-break space (U+00A0) among them.
\<close>

definition is_space :: "char \<Rightarrow> bool" where
  "is_space c = (c \<in> set [CHR 0x09, CHR 0x0A, CHR 0x0B, CHR 0x0C, CHR 0x0D,
     CHR 0x1C, CHR 0x1D, CHR 0x1E, CHR 0x1F, CHR 0x20, CHR 0x85, CHR 0xA0])"

definition strip :: "string \<Rightarrow> string" where
  "strip s = rev (dropWhile is_space (rev (dropWhile is_space s)))"

text \<open>The decimal text of a count, as an f-string prints \<open>len(docs)\<close> and \<open>i + 1\<close>.\<close>

fun str_nat :: "nat \<Rightarrow> string" where
  "str_nat n = (if n < 10 then [char_of (48 + n)]
     else str_nat (n div 10) @ [char_of (48 + n mod 10)])"

declare str_nat.simps [simp del]

subsection \<open>Exceptions and the library\<close>

text \<open>
  An exception is a value: \<open>json.JSONDecodeError\<close>, or any other subclass of \<open>Exception\<close>,
  each with the text \<open>str(e)\<close> gives. A computation that may raise returns
  \<open>exn + 'a\<close>, \<open>Inl\<close> for the exception.
\<close>

datatype exn = JSONDecodeError string | Exception string

fun exn_text :: "exn \<Rightarrow> string" where
  "exn_text (JSONDecodeError m) = m"
| "exn_text (Exception m) = m"

text \<open>
  What the source takes from the standard library, as parameters: \<open>json.loads\<close>,
  \<open>json.dumps(_, indent=2, default=str)\<close>, and the text an f-string gives for a value
  that is not a string (\<open>str\<close>, which for a list is its \<open>repr\<close>).
\<close>

record python =
  json_loads :: "string \<Rightarrow> exn + pyval"
  json_dumps :: "pyval \<Rightarrow> exn + string"
  str_of :: "pyval \<Rightarrow> string"

text \<open>How an f-string prints a value: a string as it is.\<close>

definition format_val :: "python \<Rightarrow> pyval \<Rightarrow> string" where
  "format_val py v = (case v of PStr s \<Rightarrow> s | _ \<Rightarrow> str_of py v)"

text \<open>
  The database handle \<open>config.get_database()\<close> returns, as the three driver calls the source
  makes: \<open>db.list_collection_names()\<close>, \<open>list(db[c].find(filter, projection).limit(n))\<close>
  (filter and projection absent in \<open>find()\<close>) and \<open>list(db[c].aggregate(pipeline))\<close>.
  Each may raise.
\<close>

record database =
  list_collection_names :: "exn + string list"
  coll_find :: "string \<Rightarrow> pyval option \<Rightarrow> pyval option \<Rightarrow> int \<Rightarrow> exn + document list"
  coll_aggregate :: "string \<Rightarrow> pyval list \<Rightarrow> exn + document list"

section \<open>config.py\<close>

definition SCHEMA_RAG_COLLECTION :: string where
  "SCHEMA_RAG_COLLECTION = ''schema_metadata''"

definition SCHEMA_RAG_INDEX_NAME :: string where
  "SCHEMA_RAG_INDEX_NAME = ''schema_metadata_vector_index''"

section \<open>tools/query\_tools.py\<close>

text \<open>
  \<open>_serialize\<close>: an \<open>ObjectId\<close> becomes its string, a dict is rebuilt key by key, a list
  element by element, anything else is returned as it is.
\<close>

fun serialize :: "pyval \<Rightarrow> pyval" where
  "serialize (PObjectId s) = PStr s"
| "serialize (PDict kvs) = PDict (map (\<lambda>(k, v). (k, serialize v)) kvs)"
| "serialize (PList xs) = PList (map serialize xs)"
| "serialize obj = obj"

text \<open>
  \<open>execute_find\<close>. The body of the \<open>try\<close> first; the two handlers turn every exception
  into the returned text. A tool's result is \<open>exn + string\<close>: \<open>Inl\<close> would be an exception
  leaving the tool.
\<close>

definition execute_find_try ::
  "python \<Rightarrow> database \<Rightarrow> string \<Rightarrow> string \<Rightarrow> string \<Rightarrow> int \<Rightarrow> exn + string" where
  "execute_find_try py db collection_name filter_json projection_json limit =
     (case (if strip filter_json \<noteq> [] then json_loads py filter_json else Inr (PDict [])) of
        Inl e \<Rightarrow> Inl e
      | Inr filt \<Rightarrow>
     (case (if strip projection_json \<noteq> [] then json_loads py projection_json else Inr (PDict [])) of
        Inl e \<Rightarrow> Inl e
      | Inr proj \<Rightarrow>
     (case coll_find db collection_name (Some filt) (if truthy proj then Some proj else None) limit of
        Inl e \<Rightarrow> Inl e
      | Inr docs \<Rightarrow> json_dumps py (serialize (PList (map PDict docs))))))"

definition execute_find ::
  "python \<Rightarrow> database \<Rightarrow> string \<Rightarrow> string \<Rightarrow> string \<Rightarrow> int \<Rightarrow> exn + string" where
  "execute_find py db collection_name filter_json projection_json limit =
     (case execute_find_try py db collection_name filter_json projection_json limit of
        Inr text \<Rightarrow> Inr text
      | Inl (JSONDecodeError m) \<Rightarrow> Inr (''Invalid JSON in filter or projection: '' @ m)
      | Inl (Exception m) \<Rightarrow> Inr (''Error executing find: '' @ m))"

text \<open>
  \<open>any(s.get("$limit") is not None for s in pipeline)\<close>: stops at the first stage that
  has a limit; a stage that is not a dict has no \<open>get\<close>, which raises \<open>AttributeError\<close>.
\<close>

fun has_limit :: "pyval list \<Rightarrow> exn + bool" where
  \<open>has_limit [] = Inr False\<close>
| \<open>has_limit (s # ss) =
     (case s of
        PDict d \<Rightarrow> if dict_get d ''$limit'' \<noteq> PNone then Inr True else has_limit ss
      | _ \<Rightarrow> Inl (Exception ([CHR 0x27] @ type_name s @ [CHR 0x27] @ '' object has no attribute '' @
                          [CHR 0x27] @ ''get'' @ [CHR 0x27])))\<close>

text \<open>The pipeline that is handed to \<open>coll.aggregate\<close>.\<close>

definition limited_pipeline :: "pyval list \<Rightarrow> int \<Rightarrow> exn + pyval list" where
  "limited_pipeline pipeline limit_results =
     (case has_limit pipeline of
        Inl e \<Rightarrow> Inl e
      | Inr hl \<Rightarrow>
          Inr (if \<not> hl \<and> limit_results \<noteq> 0
               then pipeline @ [PDict [(''$limit'', PInt limit_results)]]
               else pipeline))"

definition execute_aggregation_try ::
  "python \<Rightarrow> database \<Rightarrow> string \<Rightarrow> string \<Rightarrow> int \<Rightarrow> exn + string" where
  "execute_aggregation_try py db collection_name pipeline_json limit_results =
     (case json_loads py pipeline_json of
        Inl e \<Rightarrow> Inl e
      | Inr decoded \<Rightarrow>
     (case decoded of
        PList pipeline \<Rightarrow>
          (case limited_pipeline pipeline limit_results of
             Inl e \<Rightarrow> Inl e
           | Inr pipeline' \<Rightarrow>
          (case coll_aggregate db collection_name pipeline' of
             Inl e \<Rightarrow> Inl e
           | Inr docs \<Rightarrow> json_dumps py (serialize (PList (map PDict docs)))))
      | _ \<Rightarrow> Inr ''pipeline_json must be a JSON array of stages.''))"

definition execute_aggregation ::
  "python \<Rightarrow> database \<Rightarrow> string \<Rightarrow> string \<Rightarrow> int \<Rightarrow> exn + string" where
  "execute_aggregation py db collection_name pipeline_json limit_results =
     (case execute_aggregation_try py db collection_name pipeline_json limit_results of
        Inr text \<Rightarrow> Inr text
      | Inl (JSONDecodeError m) \<Rightarrow> Inr (''Invalid JSON pipeline: '' @ m)
      | Inl (Exception m) \<Rightarrow> Inr (''Error executing aggregation: '' @ m))"

section \<open>tools/schema\_tools.py\<close>

definition list_collections :: "database \<Rightarrow> exn + string" where
  \<open>list_collections db =
     (case list_collection_names db of
        Inl e \<Rightarrow> Inr (''Error listing collections: '' @ exn_text e)
      | Inr names \<Rightarrow>
          Inr (''Collections in database '' @ [CHR 0x27] @ ''inferyx'' @ [CHR 0x27] @ '': '' @
               (if join '', '' names \<noteq> [] then join '', '' names else ''None'')))\<close>

text \<open>The type label of one field: \<open>t\<close> at the end of the loop body.\<close>

definition field_label :: "python \<Rightarrow> pyval \<Rightarrow> string" where
  "field_label py v =
     (case v of
        PDict d \<Rightarrow>
          type_name v @ '' (keys: '' @ str_of py (PList (map PStr (take 8 (map fst d)))) @ '')''
      | PList (PDict d # rest) \<Rightarrow>
          type_name v @ '' (list of dicts, first keys: '' @
            str_of py (PList (map PStr (take 5 (map fst d)))) @ '')''
      | _ \<Rightarrow> type_name v)"

text \<open>The lines one sampled document adds (\<open>i\<close> counts from 0, as \<open>enumerate\<close> does).\<close>

definition document_lines :: "python \<Rightarrow> nat \<Rightarrow> document \<Rightarrow> string list" where
  "document_lines py i doc =
     [''--- Document '' @ str_nat (i + 1) @ '' ---''] @
     map (\<lambda>(k, v). ''  '' @ k @ '': '' @ field_label py v) doc @
     [[]]"

definition schema_lines :: "python \<Rightarrow> string \<Rightarrow> document list \<Rightarrow> string list" where
  "schema_lines py collection_name docs =
     [''Collection: '' @ collection_name, ''Sample size: '' @ str_nat (length docs), []] @
     concat (map (\<lambda>(i, doc). document_lines py i doc) (enumerate 0 docs))"

definition get_collection_schema :: "python \<Rightarrow> database \<Rightarrow> string \<Rightarrow> int \<Rightarrow> exn + string" where
  \<open>get_collection_schema py db collection_name sample_size =
     (case coll_find db collection_name None None sample_size of
        Inl e \<Rightarrow> Inr (''Error getting schema for '' @ [CHR 0x27] @ collection_name @ [CHR 0x27] @ '': '' @
                   exn_text e)
      | Inr docs \<Rightarrow>
          if docs = []
          then Inr (''Collection '' @ [CHR 0x27] @ collection_name @ [CHR 0x27] @
                    '' is empty or does not exist.'')
          else Inr (join ''\<newline>'' (schema_lines py collection_name docs)))\<close>

section \<open>rag/embeddings.py\<close>

text \<open>
  The Voyage client: the configured key and \<open>vo.embed(texts, model=...).embeddings\<close>,
  which may raise (so may the import of the client library, inside the same \<open>try\<close>).
\<close>

record voyage =
  VOYAGE_API_KEY :: string
  embed :: "string list \<Rightarrow> exn + real list list"

definition get_embedding :: "voyage \<Rightarrow> string \<Rightarrow> real list" where
  "get_embedding vo text =
     (if text = [] \<or> VOYAGE_API_KEY vo = [] then []
      else case embed vo [text] of
             Inl e \<Rightarrow> []
           | Inr embeddings \<Rightarrow> if embeddings \<noteq> [] then hd embeddings else [])"

definition get_embeddings :: "voyage \<Rightarrow> string list \<Rightarrow> real list list" where
  "get_embeddings vo texts =
     (if texts = [] \<or> VOYAGE_API_KEY vo = []
      then (if texts \<noteq> [] then replicate (length texts) [] else [])
      else case embed vo texts of
             Inl e \<Rightarrow> replicate (length texts) []
           | Inr embeddings \<Rightarrow>
               if embeddings \<noteq> [] then embeddings else replicate (length texts) [])"

section \<open>rag/retrieval.py\<close>

definition vector_search ::
  "database \<Rightarrow> string \<Rightarrow> string \<Rightarrow> real list \<Rightarrow> int \<Rightarrow> document list" where
  "vector_search db collection_name index_name query_embedding limit =
     (if query_embedding = [] then []
      else case coll_aggregate db collection_name
             [PDict [(''$vectorSearch'', PDict
                [(''index'', PStr index_name),
                 (''path'', PStr ''embedding''),
                 (''queryVector'', PList (map PFloat query_embedding)),
                 (''numCandidates'', PInt (max (limit * 20) 100)),
                 (''limit'', PInt limit)])],
              PDict [(''$project'', PDict [(''embedding'', PInt 0)])]] of
             Inl e \<Rightarrow> []
           | Inr docs \<Rightarrow> docs)"

definition SCHEMA_HEADER :: string where
  "SCHEMA_HEADER = ''Relevant schema metadata (from vector search; use this to prioritize which collections/fields to use):''"

text \<open>The \<open>for d in docs\<close> loop: a bullet line for each document that has a text.\<close>

fun context_lines :: "python \<Rightarrow> string list \<Rightarrow> document list \<Rightarrow> string list" where
  "context_lines py lines [] = lines"
| "context_lines py lines (d # docs) =
     (let text = py_or (dict_get d ''text'') (py_or (dict_get d ''description'') (PStr []));
          collection = py_or (dict_get d ''collection_name'') (py_or (dict_get d ''collection'') (PStr []))
      in context_lines py
           (if truthy text
            then lines @ [''- ['' @ format_val py collection @ ''] '' @ format_val py text]
            else lines)
           docs)"

text \<open>
  \<open>retrieve_schema_context\<close>. Its first statement is \<open>db = get_database()\<close>, outside any
  \<open>try\<close>: \<open>get_db\<close> is what that call gives, the handle or the exception it raises (the
  driver refuses an empty or malformed \<open>MONGODB_URI\<close> when the client is built). The
  result is \<open>exn + string\<close>: \<open>Inl\<close> is an exception leaving the function.
\<close>

definition retrieve_schema_context ::
  "python \<Rightarrow> voyage \<Rightarrow> exn + database \<Rightarrow> string \<Rightarrow> int \<Rightarrow> exn + string" where
  "retrieve_schema_context py vo get_db user_query top_k =
     (case get_db of
        Inl e \<Rightarrow> Inl e
      | Inr db \<Rightarrow>
          Inr (let query_embedding = get_embedding vo user_query in
               if query_embedding = [] then []
               else let docs = vector_search db SCHEMA_RAG_COLLECTION SCHEMA_RAG_INDEX_NAME
                                 query_embedding top_k in
               if docs = [] then []
               else let lines = context_lines py [SCHEMA_HEADER, []] docs in
               if length lines > 2 then join ''\<newline>'' lines else []))"

section \<open>agent.py\<close>

text \<open>
  A message of the transcript. The content of a message is a string or a list of content
  blocks, so it is a \<open>pyval\<close>. A tool request carries its name, arguments and id; a
  \<open>ToolMessage\<close> the id of the request it answers.
\<close>

record tool_call =
  tc_name :: string
  tc_args :: document
  tc_id :: string

datatype message =
    HumanMessage pyval
  | AIMessage pyval "tool_call list"
  | ToolMessage pyval string
  | SystemMessage pyval

definition BASE_SYSTEM :: string where
  \<open>BASE_SYSTEM =
     ''You are a MongoDB expert. You help users query the database named "inferyx" by understanding their natural language prompt and using the following tools:\<newline>'' @
     ''\<newline>'' @
     ''1. list_collections - Call this first to see which collections exist.\<newline>'' @
     ''2. get_collection_schema - Call this to see field names and types for one or more collections. For questions that need a JOIN between two collections, get schema for both collections to identify the local and foreign key fields for $lookup.\<newline>'' @
     ''3. execute_find - Run a simple find query on a single collection (filter and optional projection). Use when the user wants to list or filter documents from one collection.\<newline>'' @
     ''4. execute_aggregation - Run an aggregation pipeline. Use for: grouping, counting, sorting, or JOINing two collections with $lookup. For a join, use a stage like: {{"$lookup": {{"from": "other_collection", "localField": "field_in_this_collection", "foreignField": "_id", "as": "joined_docs"}}}}.\<newline>'' @
     ''\<newline>'' @
     ''Always use the tools to answer. Use any relevant schema provided below to prioritize collections and query shape. Then call tools as needed. For "join" or "combine data from two collections", use execute_aggregation with a $lookup stage. Return the final tool result as the answer to the user.''\<close>

text \<open>
  \<open>_get_last_user_text\<close>: the loop runs over the reversed list and returns at the first
  \<open>HumanMessage\<close> whose content is not empty.
\<close>

fun last_user_text_loop :: "python \<Rightarrow> message list \<Rightarrow> string" where
  "last_user_text_loop py [] = []"
| "last_user_text_loop py (m # ms) =
     (case m of
        HumanMessage c \<Rightarrow>
          if truthy c then (case c of PStr s \<Rightarrow> s | _ \<Rightarrow> str_of py c)
          else last_user_text_loop py ms
      | _ \<Rightarrow> last_user_text_loop py ms)"

definition get_last_user_text :: "python \<Rightarrow> message list \<Rightarrow> string" where
  "get_last_user_text py messages = last_user_text_loop py (rev messages)"

text \<open>
  The prompt template. \<open>ChatPromptTemplate.from_messages\<close> reads a message text in the
  f-string format, the rules of \<open>str.format\<close>: \<open>{{\<close> and \<open>}}\<close> stand for one brace each, and
  \<open>{name}\<close> for the value of the variable \<open>name\<close>. \<open>format_template vars field text\<close>
  formats \<open>text\<close>; \<open>field\<close> holds the name being read inside a replacement field.
\<close>

definition emit :: "string \<Rightarrow> exn + string \<Rightarrow> exn + string" where
  "emit s r = (case r of Inl e \<Rightarrow> Inl e | Inr t \<Rightarrow> Inr (s @ t))"

fun format_template :: "(string \<times> string) list \<Rightarrow> string option \<Rightarrow> string \<Rightarrow> exn + string" where
  "format_template vars None [] = Inr []"
| "format_template vars None [c] =
     (if c = CHR ''{'' then Inl (Exception ''Single { encountered in format string'')
      else if c = CHR ''}'' then Inl (Exception ''Single } encountered in format string'')
      else Inr [c])"
| "format_template vars None (c # d # cs) =
     (if c = CHR ''{'' then
        (if d = CHR ''{'' then emit ''{'' (format_template vars None cs)
         else format_template vars (Some []) (d # cs))
      else if c = CHR ''}'' then
        (if d = CHR ''}'' then emit ''}'' (format_template vars None cs)
         else Inl (Exception ''Single } encountered in format string''))
      else emit [c] (format_template vars None (d # cs)))"
| "format_template vars (Some name) [] = Inl (Exception ''expected } before end of string'')"
| "format_template vars (Some name) (c # cs) =
     (if c = CHR ''}'' then
        (case map_of vars name of
           None \<Rightarrow> Inl (Exception (''missing variable '' @ name))
         | Some v \<Rightarrow> emit v (format_template vars None cs))
      else format_template vars (Some (name @ [c])) cs)"

text \<open>
  \<open>prompt\<close>: the system message of the template \<open>("system", "{{system}}")\<close>, formatted with
  the variable \<open>system\<close>, then the messages of the placeholder.
\<close>

definition SYSTEM_TEMPLATE :: string where
  "SYSTEM_TEMPLATE = ''{{system}}''"

definition prompt :: "string \<Rightarrow> message list \<Rightarrow> exn + message list" where
  "prompt system messages =
     (case format_template [(''system'', system)] None SYSTEM_TEMPLATE of
        Inl e \<Rightarrow> Inl e
      | Inr text \<Rightarrow> Inr (SystemMessage (PStr text) # messages))"

text \<open>
  What a run is given: the library, the embedding client, what \<open>get_database()\<close> gives,
  the model with its tools bound (from the messages the prompt produces to the content and
  tool requests of one \<open>AIMessage\<close>, or an exception), the text a registered tool returns
  for one request, and the recursion limit of the graph library that is in force (the
  source passes no config to \<open>compile\<close> or \<open>stream\<close>, so it is the library's default, 25).
\<close>

record agent_env =
  env_py :: python
  env_vo :: voyage
  get_database :: "exn + database"
  llm_with_tools :: "message list \<Rightarrow> exn + (pyval \<times> tool_call list)"
  invoke_tool :: "tool_call \<Rightarrow> string"
  recursion_limit :: nat

text \<open>
  \<open>agent_node\<close>: the retrieval result \<open>schema_ctx\<close>, the text \<open>full_system\<close> built from it,
  and the call \<open>chain.invoke({"system": full_system, "messages": messages})\<close> of the chain
  \<open>prompt | llm_with_tools\<close>.
\<close>

definition schema_ctx :: "agent_env \<Rightarrow> message list \<Rightarrow> exn + string" where
  "schema_ctx env messages =
     (let user_text = get_last_user_text (env_py env) messages in
      if user_text \<noteq> []
      then retrieve_schema_context (env_py env) (env_vo env) (get_database env) user_text 8
      else Inr [])"

definition full_system :: "agent_env \<Rightarrow> message list \<Rightarrow> exn + string" where
  "full_system env messages =
     (case schema_ctx env messages of
        Inl e \<Rightarrow> Inl e
      | Inr ctx \<Rightarrow>
          Inr (concat ([BASE_SYSTEM] @ (if ctx \<noteq> [] then [''\<newline>\<newline>'' @ ctx] else []))))"

definition agent_node :: "agent_env \<Rightarrow> message list \<Rightarrow> exn + message list" where
  "agent_node env messages =
     (case full_system env messages of
        Inl e \<Rightarrow> Inl e
      | Inr system \<Rightarrow>
     (case prompt system messages of
        Inl e \<Rightarrow> Inl e
      | Inr rendered \<Rightarrow>
     (case llm_with_tools env rendered of
        Inl e \<Rightarrow> Inl e
      | Inr (content, tool_calls) \<Rightarrow> Inr [AIMessage content tool_calls])))"

fun tool_calls_of :: "message \<Rightarrow> tool_call list" where
  "tool_calls_of (AIMessage c tcs) = tcs"
| "tool_calls_of m = []"

text \<open>\<open>route_after_agent\<close>; \<open>messages[-1]\<close> raises on an empty list.\<close>

definition route_after_agent :: "message list \<Rightarrow> exn + string" where
  "route_after_agent messages =
     (case rev messages of
        [] \<Rightarrow> Inl (Exception ''list index out of range'')
      | final # before \<Rightarrow> Inr (if tool_calls_of final \<noteq> [] then ''tools'' else ''__end__''))"

text \<open>
  Modelled from the spec: the tool node, which the source takes from the graph library
  (\<open>ToolNode(tools)\<close>). Every request of the last model message is dispatched to the
  named tool, in the order the model listed them, and result \<open>i\<close> answers request \<open>i\<close>.
\<close>

definition tool_node :: "agent_env \<Rightarrow> message list \<Rightarrow> message list" where
  "tool_node env messages =
     (case rev messages of
        [] \<Rightarrow> []
      | final # before \<Rightarrow>
          map (\<lambda>tc. ToolMessage (PStr (invoke_tool env tc)) (tc_id tc)) (tool_calls_of final))"

text \<open>
  The compiled graph: \<open>START \<rightarrow> agent\<close>, the conditional edge after \<open>agent\<close>, and
  \<open>tools \<rightarrow> agent\<close>; every node's messages are appended to the state. Each run of a node is
  one step of the graph library. \<open>graph_steps n\<close> runs the graph from the agent node with
  \<open>n\<close> steps left: when a node is due and no step is left, the library raises
  \<open>GraphRecursionError\<close>, which nothing in the source catches. The limit is a parameter,
  and what is proved of the run below is proved for every value of it.
\<close>

definition graph_recursion_error :: "nat \<Rightarrow> exn" where
  "graph_recursion_error limit =
     Exception (''Recursion limit of '' @ str_nat limit @
                '' reached without hitting a stop condition.'')"

fun graph_steps :: "nat \<Rightarrow> agent_env \<Rightarrow> message list \<Rightarrow> exn + message list" where
  "graph_steps 0 env messages = Inl (graph_recursion_error (recursion_limit env))"
| "graph_steps (Suc 0) env messages =
     (case agent_node env messages of
        Inl e \<Rightarrow> Inl e
      | Inr new \<Rightarrow>
          (case route_after_agent (messages @ new) of
             Inl e \<Rightarrow> Inl e
           | Inr route \<Rightarrow>
               if route = ''tools''
               then Inl (graph_recursion_error (recursion_limit env))
               else Inr (messages @ new)))"
| "graph_steps (Suc (Suc n)) env messages =
     (case agent_node env messages of
        Inl e \<Rightarrow> Inl e
      | Inr new \<Rightarrow>
          (case route_after_agent (messages @ new) of
             Inl e \<Rightarrow> Inl e
           | Inr route \<Rightarrow>
               if route = ''tools''
               then graph_steps n env (messages @ new @ tool_node env (messages @ new))
               else Inr (messages @ new)))"

definition run_graph :: "agent_env \<Rightarrow> message list \<Rightarrow> exn + message list" where
  "run_graph env messages = graph_steps (recursion_limit env) env messages"

text \<open>The answer \<open>run_agent\<close> picks from the final messages (its second loop).\<close>

definition NO_RESPONSE :: string where
  "NO_RESPONSE = ''No response generated.''"

fun final_text_loop :: "message list \<Rightarrow> pyval" where
  "final_text_loop [] = PStr NO_RESPONSE"
| "final_text_loop (m # ms) =
     (case m of
        AIMessage c tcs \<Rightarrow> if tcs = [] then py_or c (PStr NO_RESPONSE) else final_text_loop ms
      | _ \<Rightarrow> final_text_loop ms)"

definition final_text :: "message list \<Rightarrow> pyval" where
  "final_text messages = final_text_loop (rev messages)"

text \<open>
  \<open>run_agent\<close>: \<open>get_database()\<close> first, then the run of the graph from the user's message;
  an exception of either leaves \<open>run_agent\<close>.
\<close>

definition run_agent :: "agent_env \<Rightarrow> string \<Rightarrow> exn + pyval \<times> message list" where
  "run_agent env user_prompt =
     (case get_database env of
        Inl e \<Rightarrow> Inl e
      | Inr db \<Rightarrow>
          (case run_graph env [HumanMessage (PStr user_prompt)] of
             Inl e \<Rightarrow> Inl e
           | Inr messages \<Rightarrow> Inr (final_text messages, messages)))"

section \<open>Notions the properties are stated with\<close>

text \<open>No \<open>ObjectId\<close> anywhere in a value, through dicts and lists.\<close>

fun oid_free :: "pyval \<Rightarrow> bool" where
  "oid_free (PObjectId s) = False"
| "oid_free (PDict kvs) = list_all (\<lambda>(k, v). oid_free v) kvs"
| "oid_free (PList xs) = list_all oid_free xs"
| "oid_free obj = True"

text \<open>
  \<open>stringified a b\<close>: \<open>b\<close> is \<open>a\<close> with every identifier replaced by its string. A dict
  keeps its keys in their order, a list its length and order, and every value that is
  neither is the same on both sides.
\<close>

fun stringified :: "pyval \<Rightarrow> pyval \<Rightarrow> bool" where
  "stringified (PObjectId s) b = (b = PStr s)"
| "stringified (PDict kvs) b =
     (case b of
        PDict kvs' \<Rightarrow> list_all2 (\<lambda>(k, v) (k', v'). k' = k \<and> stringified v v') kvs kvs'
      | _ \<Rightarrow> False)"
| "stringified (PList xs) b =
     (case b of PList ys \<Rightarrow> list_all2 stringified xs ys | _ \<Rightarrow> False)"
| "stringified a b = (b = a)"

text \<open>A model message that asks for no tool: the message that ends the loop.\<close>

fun is_final_answer :: "message \<Rightarrow> bool" where
  "is_final_answer (AIMessage c tcs) = (tcs = [])"
| "is_final_answer m = False"

text \<open>A stage that is an object, and a stage object with a limit that is not \<open>null\<close>.\<close>

fun is_dict :: "pyval \<Rightarrow> bool" where
  "is_dict (PDict d) = True"
| "is_dict v = False"

fun stage_has_limit :: "pyval \<Rightarrow> bool" where
  "stage_has_limit (PDict d) = (dict_get d ''$limit'' \<noteq> PNone)"
| "stage_has_limit v = False"

text \<open>
  What \<open>execute_aggregation\<close> returns once \<open>coll.aggregate\<close> has answered \<open>r\<close>: the
  serialised documents, or the text of the handler that catches the exception.
\<close>

definition aggregation_reply :: "python \<Rightarrow> exn + document list \<Rightarrow> exn + string" where
  "aggregation_reply py r =
     (case (case r of Inl e \<Rightarrow> Inl e
                    | Inr docs \<Rightarrow> json_dumps py (serialize (PList (map PDict docs)))) of
        Inr text \<Rightarrow> Inr text
      | Inl (JSONDecodeError m) \<Rightarrow> Inr (''Invalid JSON pipeline: '' @ m)
      | Inl (Exception m) \<Rightarrow> Inr (''Error executing aggregation: '' @ m))"

text \<open>A message written by the user.\<close>

fun is_human :: "message \<Rightarrow> bool" where
  "is_human (HumanMessage c) = True"
| "is_human m = False"

text \<open>
  \<open>agent_entry n env init\<close>: the transcript with which the agent node is entered for the
  \<open>n + 1\<close>-th time along the edges of the graph, starting from \<open>init\<close>; \<open>None\<close> when the
  run has ended before. The first entry is with \<open>init\<close>; after an entry whose model
  message asks for tools, the next entry is with that message and the tool results
  appended. The step limit is left aside here: entry \<open>n + 1\<close> is made by the run when
  \<open>2 * n\<close> is below the limit.
\<close>

fun agent_entry :: "nat \<Rightarrow> agent_env \<Rightarrow> message list \<Rightarrow> message list option" where
  "agent_entry 0 env init = Some init"
| "agent_entry (Suc n) env init =
     (case agent_entry n env init of
        None \<Rightarrow> None
      | Some messages \<Rightarrow>
          (case agent_node env messages of
             Inl e \<Rightarrow> None
           | Inr new \<Rightarrow>
               (case route_after_agent (messages @ new) of
                  Inl e \<Rightarrow> None
                | Inr route \<Rightarrow>
                    if route = ''tools''
                    then Some (messages @ new @ tool_node env (messages @ new))
                    else None)))"

text \<open>A model that answers every call with a message that asks for at least one tool.\<close>

definition always_requests_tools :: "agent_env \<Rightarrow> bool" where
  "always_requests_tools env =
     (\<forall>messages. \<exists>c tcs. llm_with_tools env messages = Inr (c, tcs) \<and> tcs \<noteq> [])"

text \<open>
  The text a tool returns for an exception, by the handler that catches it, and the value
  \<open>json.loads(text) if text.strip() else {}\<close>.
\<close>

fun find_failure_text :: "exn \<Rightarrow> string" where
  "find_failure_text (JSONDecodeError m) = ''Invalid JSON in filter or projection: '' @ m"
| "find_failure_text (Exception m) = ''Error executing find: '' @ m"

fun aggregation_failure_text :: "exn \<Rightarrow> string" where
  "aggregation_failure_text (JSONDecodeError m) = ''Invalid JSON pipeline: '' @ m"
| "aggregation_failure_text (Exception m) = ''Error executing aggregation: '' @ m"

definition decoded_or_empty :: "python \<Rightarrow> string \<Rightarrow> exn + pyval" where
  "decoded_or_empty py text = (if strip text \<noteq> [] then json_loads py text else Inr (PDict []))"

section \<open>Example environments\<close>

text \<open>
  Concrete stand-ins for the library, the database, the embedding service and the model,
  on which the theorems below are instantiated. \<open>example_python\<close> decodes a handful of
  texts and prints a list of strings the way \<open>repr\<close> does for plain keys.
\<close>

definition example_python :: python where
  \<open>example_python =
     \<lparr>json_loads = (\<lambda>s.
        if s = ''{"status": active}''
          then Inl (JSONDecodeError ''Expecting value: line 1 column 12 (char 11)'')
        else if s = ''{"status": "active"}'' then Inr (PDict [(''status'', PStr ''active'')])
        else if s = ''[{"$match": {}}]'' then Inr (PList [PDict [(''$match'', PDict [])]])
        else if s = ''[{"$limit": 5}]'' then Inr (PList [PDict [(''$limit'', PInt 5)]])
        else if s = ''{}'' then Inr (PDict [])
        else if s = ''[]'' then Inr (PList [])
        else Inl (JSONDecodeError ''Expecting value: line 1 column 1 (char 0)'')),
      json_dumps = (\<lambda>v. case v of PList xs \<Rightarrow> Inr (''<'' @ str_nat (length xs) @ '' records>'')
                               | _ \<Rightarrow> Inl (Exception ''not a list'')),
      str_of = (\<lambda>v. case v of
                  PList xs \<Rightarrow> ''['' @ join '', '' (map (\<lambda>x. case x of
                       PStr s \<Rightarrow> [CHR 0x27] @ s @ [CHR 0x27] | _ \<Rightarrow> ''?'') xs) @ '']''
                | _ \<Rightarrow> ''?'')\<rparr>\<close>

definition example_database :: "document list \<Rightarrow> database" where
  "example_database docs =
     \<lparr>list_collection_names = Inr [''users'', ''orders''],
      coll_find = (\<lambda>c f p n. Inr docs),
      coll_aggregate = (\<lambda>c pipeline. Inr docs)\<rparr>"

definition failing_database :: database where
  "failing_database =
     \<lparr>list_collection_names = Inl (Exception ''connection refused''),
      coll_find = (\<lambda>c f p n. Inl (Exception ''connection refused'')),
      coll_aggregate = (\<lambda>c pipeline. Inl (Exception ''connection refused''))\<rparr>"

definition example_voyage :: "string \<Rightarrow> voyage" where
  "example_voyage key = \<lparr>VOYAGE_API_KEY = key, embed = (\<lambda>ts. Inr (map (\<lambda>t. [1, 0]) ts))\<rparr>"

text \<open>A database that answers an aggregation with one document per stage it was given.\<close>

definition counting_database :: database where
  "counting_database =
     \<lparr>list_collection_names = Inr [],
      coll_find = (\<lambda>c f p n. Inr []),
      coll_aggregate = (\<lambda>c pipeline. Inr (map (\<lambda>s. [(''stage'', s)]) pipeline))\<rparr>"

text \<open>
  Two models, both with a database and the library's default limit of 25 steps:
  \<open>example_env k\<close> asks for one tool in each of its first \<open>k\<close> calls of a run seeded with
  one message and answers in the next; \<open>looping_env\<close> asks for a tool in every call.
  \<open>unconfigured\<close> is what \<open>get_database()\<close> gives when \<open>MONGODB_URI\<close> is not set.
\<close>

definition example_call :: tool_call where
  "example_call = \<lparr>tc_name = ''list_collections'', tc_args = [], tc_id = ''call_1''\<rparr>"

definition example_env :: "nat \<Rightarrow> agent_env" where
  "example_env k =
     \<lparr>env_py = example_python,
      env_vo = example_voyage ''key'',
      get_database =
        Inr (example_database [[(''collection_name'', PStr ''users''), (''text'', PStr ''accounts'')]]),
      llm_with_tools = (\<lambda>rendered.
         if length rendered < 2 * k + 1 then Inr (PStr ''checking'', [example_call])
         else Inr (PStr ''done'', [])),
      invoke_tool = (\<lambda>tc. ''users, orders''),
      recursion_limit = 25\<rparr>"

definition looping_env :: agent_env where
  "looping_env =
     \<lparr>env_py = example_python,
      env_vo = example_voyage [],
      get_database = Inr (example_database []),
      llm_with_tools = (\<lambda>rendered. Inr (PStr [], [example_call])),
      invoke_tool = (\<lambda>tc. ''users, orders''),
      recursion_limit = 25\<rparr>"

definition unconfigured :: "exn + database" where
  "unconfigured = Inl (Exception ''Empty host (or extra comma in host list).'')"

text \<open>A model that answers with the system message it was called with.\<close>

definition echo_env :: agent_env where
  "echo_env =
     \<lparr>env_py = example_python,
      env_vo = example_voyage [],
      get_database = Inr (example_database []),
      llm_with_tools = (\<lambda>rendered. case rendered of
                          SystemMessage c # rest \<Rightarrow> Inr (c, [])
                        | _ \<Rightarrow> Inr (PStr ''no system message'', [])),
      invoke_tool = (\<lambda>tc. []),
      recursion_limit = 25\<rparr>"

section \<open>Serialisation of identifiers\<close>

lemma serialize_stringified: "stringified obj (serialize obj)"
proof (induction obj)
  case (PDict kvs)
  have ih: "\<And>k v. (k, v) \<in> set kvs \<Longrightarrow> stringified v (serialize v)"
    using PDict by auto
  show ?case
    using ih by (auto simp: list_all2_map2 intro!: list_all2_same[THEN iffD2])
next
  case (PList xs)
  then show ?case by (auto simp: list_all2_map2 intro!: list_all2_same[THEN iffD2])
qed auto

lemma serialize_oid_free: "oid_free (serialize obj)"
proof (induction obj)
  case (PDict kvs)
  have ih: "\<And>k v. (k, v) \<in> set kvs \<Longrightarrow> oid_free (serialize v)"
    using PDict by auto
  show ?case using ih by (auto simp: list_all_iff)
next
  case (PList xs)
  then show ?case by (auto simp: list_all_iff)
qed auto

lemma serialize_id: "oid_free obj \<Longrightarrow> serialize obj = obj"
proof (induction obj)
  case (PDict kvs)
  have ih: "\<And>k v. (k, v) \<in> set kvs \<Longrightarrow> serialize v = v"
    using PDict by (auto simp: list_all_iff)
  have "map (\<lambda>(k, v). (k, serialize v)) kvs = map id kvs"
    by (rule map_cong) (auto simp: ih)
  then show ?case by simp
next
  case (PList xs)
  have "map serialize xs = map id xs"
    by (rule map_cong) (use PList in \<open>auto simp: list_all_iff\<close>)
  then show ?case by simp
qed auto

text \<open>
  C6. What \<open>execute_find\<close> and \<open>execute_aggregation\<close> serialise is \<open>_serialize(docs)\<close>.
  For every value, the result is the value with each \<open>ObjectId\<close> turned into its string,
  at any depth of dicts and lists; dicts keep their keys and order, lists their length
  and order; no \<open>ObjectId\<close> is left; and a value that holds none is returned unchanged.
\<close>

theorem serialize_converts_identifiers:
  "stringified obj (serialize obj) \<and> oid_free (serialize obj) \<and>
   (oid_free obj \<longrightarrow> serialize obj = obj)"
  by (simp add: serialize_stringified serialize_oid_free serialize_id)

theorem serialize_converts_identifiers_witness:
  "serialize (PDict [(''_id'', PObjectId ''507f1f77bcf86cd799439011''),
                     (''refs'', PList [PObjectId ''0a'', PInt 7]),
                     (''owner'', PDict [(''id'', PObjectId ''0b''), (''name'', PStr ''x'')])])
   = PDict [(''_id'', PStr ''507f1f77bcf86cd799439011''),
            (''refs'', PList [PStr ''0a'', PInt 7]),
            (''owner'', PDict [(''id'', PStr ''0b''), (''name'', PStr ''x'')])] \<and>
   stringified
     (PDict [(''_id'', PObjectId ''507f1f77bcf86cd799439011''),
             (''refs'', PList [PObjectId ''0a'', PInt 7]),
             (''owner'', PDict [(''id'', PObjectId ''0b''), (''name'', PStr ''x'')])])
     (PDict [(''_id'', PStr ''507f1f77bcf86cd799439011''),
             (''refs'', PList [PStr ''0a'', PInt 7]),
             (''owner'', PDict [(''id'', PStr ''0b''), (''name'', PStr ''x'')])]) \<and>
   oid_free (PList [PStr ''0a'', PInt 7]) \<and>
   serialize (PList [PStr ''0a'', PInt 7]) = PList [PStr ''0a'', PInt 7]"
  using serialize_converts_identifiers
          [of "PDict [(''_id'', PObjectId ''507f1f77bcf86cd799439011''),
                      (''refs'', PList [PObjectId ''0a'', PInt 7]),
                      (''owner'', PDict [(''id'', PObjectId ''0b''), (''name'', PStr ''x'')])]"]
        serialize_converts_identifiers [of "PList [PStr ''0a'', PInt 7]"]
  by simp

section \<open>The answer taken from the transcript\<close>

lemma final_text_loop_skip:
  "list_all (\<lambda>m. \<not> is_final_answer m) xs \<Longrightarrow> final_text_loop (xs @ ys) = final_text_loop ys"
proof (induction xs)
  case Nil
  then show ?case by simp
next
  case (Cons m xs)
  then show ?case by (cases m) auto
qed

text \<open>
  C4, as the code has it. \<open>run_agent\<close> scans the final messages from the end for the most
  recent model message without tool requests. It returns that message's content when the
  content is not empty, and the fixed text \<open>No response generated.\<close> when the content is
  empty or when there is no such message. The extraction is a function of the message
  list alone.
\<close>

theorem final_text_last_answer:
  "(messages = pre @ AIMessage c [] # post \<and> list_all (\<lambda>m. \<not> is_final_answer m) post \<longrightarrow>
      final_text messages = (if truthy c then c else PStr NO_RESPONSE)) \<and>
   (list_all (\<lambda>m. \<not> is_final_answer m) messages \<longrightarrow> final_text messages = PStr NO_RESPONSE)"
proof (intro conjI impI)
  assume a: "messages = pre @ AIMessage c [] # post \<and> list_all (\<lambda>m. \<not> is_final_answer m) post"
  then have "list_all (\<lambda>m. \<not> is_final_answer m) (rev post)" by simp
  then have "final_text_loop (rev post @ AIMessage c [] # rev pre) = final_text_loop (AIMessage c [] # rev pre)"
    by (rule final_text_loop_skip)
  with a show "final_text messages = (if truthy c then c else PStr NO_RESPONSE)"
    by (simp add: final_text_def py_or_def)
next
  assume "list_all (\<lambda>m. \<not> is_final_answer m) messages"
  then have "list_all (\<lambda>m. \<not> is_final_answer m) (rev messages)" by simp
  then have "final_text_loop (rev messages @ []) = final_text_loop []"
    by (rule final_text_loop_skip)
  then show "final_text messages = PStr NO_RESPONSE" by (simp add: final_text_def)
qed

theorem final_text_last_answer_witness:
  "final_text [HumanMessage (PStr ''q''),
               AIMessage (PStr ''looking'') [\<lparr>tc_name = ''list_collections'', tc_args = [], tc_id = ''t1''\<rparr>],
               ToolMessage (PStr ''Collections'') ''t1'',
               AIMessage (PStr ''done'') []] = PStr ''done'' \<and>
   final_text [HumanMessage (PStr ''q''),
               AIMessage (PStr ''looking'') [\<lparr>tc_name = ''list_collections'', tc_args = [], tc_id = ''t1''\<rparr>],
               ToolMessage (PStr ''Collections'') ''t1''] = PStr ''No response generated.''"
  using final_text_last_answer
          [of "[HumanMessage (PStr ''q''),
               AIMessage (PStr ''looking'') [\<lparr>tc_name = ''list_collections'', tc_args = [], tc_id = ''t1''\<rparr>],
               ToolMessage (PStr ''Collections'') ''t1'',
               AIMessage (PStr ''done'') []]"
              "[HumanMessage (PStr ''q''),
               AIMessage (PStr ''looking'') [\<lparr>tc_name = ''list_collections'', tc_args = [], tc_id = ''t1''\<rparr>],
               ToolMessage (PStr ''Collections'') ''t1'']" "PStr ''done''" "[]"]
        final_text_last_answer
          [of "[HumanMessage (PStr ''q''),
               AIMessage (PStr ''looking'') [\<lparr>tc_name = ''list_collections'', tc_args = [], tc_id = ''t1''\<rparr>],
               ToolMessage (PStr ''Collections'') ''t1'']"]
  by (simp add: NO_RESPONSE_def)

text \<open>
  C4 as the claim words it fails where the last model message without tool requests has
  an empty text: the claim has that empty text returned, the code returns the fixed text.
\<close>

theorem final_text_empty_answer_counterexample:
  "final_text [HumanMessage (PStr ''q''), AIMessage (PStr []) []] = PStr ''No response generated.'' \<and>
   final_text [HumanMessage (PStr ''q''), AIMessage (PStr []) []] \<noteq> PStr []"
  by (simp add: final_text_def py_or_def NO_RESPONSE_def)

section \<open>Retrieval of schema context\<close>

lemma context_lines_bullets:
  "\<exists>bs. context_lines py acc docs = acc @ bs \<and> (\<forall>b \<in> set bs. take 3 b = ''- ['')"
proof (induction docs arbitrary: acc)
  case Nil
  then show ?case by simp
next
  case (Cons d docs)
  let ?text = "py_or (dict_get d ''text'') (py_or (dict_get d ''description'') (PStr []))"
  let ?line = "''- ['' @ format_val py (py_or (dict_get d ''collection_name'')
                 (py_or (dict_get d ''collection'') (PStr []))) @ ''] '' @ format_val py ?text"
  let ?acc' = "if truthy ?text then acc @ [?line] else acc"
  obtain bs where bs: "context_lines py ?acc' docs = ?acc' @ bs" "\<forall>b \<in> set bs. take 3 b = ''- [''"
    using Cons.IH[of ?acc'] by blast
  have eq: "context_lines py acc (d # docs) = context_lines py ?acc' docs"
    by (simp add: Let_def)
  show ?case
  proof (cases "truthy ?text")
    case True
    then show ?thesis using bs eq by (intro exI[of _ "?line # bs"]) simp
  next
    case False
    then show ?thesis using bs eq by (intro exI[of _ bs]) simp
  qed
qed

lemma context_lines_no_text:
  "\<forall>d \<in> set docs. \<not> truthy (dict_get d ''text'') \<and> \<not> truthy (dict_get d ''description'') \<Longrightarrow>
   context_lines py acc docs = acc"
  by (induction docs arbitrary: acc) (auto simp: py_or_def Let_def)

text \<open>
  C10. With the database handle obtained: when no document the vector search returns has a
  non-empty \<open>text\<close> or
  \<open>description\<close>, \<open>retrieve_schema_context\<close> returns the empty string. In every case its
  result is either empty or the header, the blank line and at least one bullet line: it is
  never the header alone.
\<close>

theorem retrieve_schema_context_no_header_only:
  "((\<forall>d \<in> set (vector_search db SCHEMA_RAG_COLLECTION SCHEMA_RAG_INDEX_NAME (get_embedding vo q) k).
        \<not> truthy (dict_get d ''text'') \<and> \<not> truthy (dict_get d ''description'')) \<longrightarrow>
      retrieve_schema_context py vo (Inr db) q k = Inr []) \<and>
   (retrieve_schema_context py vo (Inr db) q k = Inr [] \<or>
    (\<exists>bs. bs \<noteq> [] \<and> (\<forall>b \<in> set bs. take 3 b = ''- ['') \<and>
       retrieve_schema_context py vo (Inr db) q k = Inr (join ''\<newline>'' ([SCHEMA_HEADER, []] @ bs))))"
proof (intro conjI impI)
  assume "\<forall>d \<in> set (vector_search db SCHEMA_RAG_COLLECTION SCHEMA_RAG_INDEX_NAME (get_embedding vo q) k).
        \<not> truthy (dict_get d ''text'') \<and> \<not> truthy (dict_get d ''description'')"
  then have "context_lines py [SCHEMA_HEADER, []]
      (vector_search db SCHEMA_RAG_COLLECTION SCHEMA_RAG_INDEX_NAME (get_embedding vo q) k) = [SCHEMA_HEADER, []]"
    by (rule context_lines_no_text)
  then show "retrieve_schema_context py vo (Inr db) q k = Inr []"
    by (simp add: retrieve_schema_context_def Let_def)
next
  obtain bs where bs: "context_lines py [SCHEMA_HEADER, []]
      (vector_search db SCHEMA_RAG_COLLECTION SCHEMA_RAG_INDEX_NAME (get_embedding vo q) k) = [SCHEMA_HEADER, []] @ bs"
      "\<forall>b \<in> set bs. take 3 b = ''- [''"
    using context_lines_bullets by blast
  show "retrieve_schema_context py vo (Inr db) q k = Inr [] \<or>
    (\<exists>bs. bs \<noteq> [] \<and> (\<forall>b \<in> set bs. take 3 b = ''- ['') \<and>
       retrieve_schema_context py vo (Inr db) q k = Inr (join ''\<newline>'' ([SCHEMA_HEADER, []] @ bs)))"
  proof (cases "retrieve_schema_context py vo (Inr db) q k = Inr []")
    case True
    then show ?thesis by simp
  next
    case False
    then have "bs \<noteq> [] \<and> retrieve_schema_context py vo (Inr db) q k = Inr (join ''\<newline>'' ([SCHEMA_HEADER, []] @ bs))"
      using bs(1) by (auto simp: retrieve_schema_context_def Let_def split: if_splits)
    then show ?thesis using bs(2) by blast
  qed
qed

theorem retrieve_schema_context_no_header_only_witness:
  "vector_search (example_database [[(''collection_name'', PStr ''users''), (''text'', PStr [])]])
     SCHEMA_RAG_COLLECTION SCHEMA_RAG_INDEX_NAME (get_embedding (example_voyage ''key'') ''list users'') 8
     = [[(''collection_name'', PStr ''users''), (''text'', PStr [])]] \<and>
   retrieve_schema_context example_python (example_voyage ''key'')
     (Inr (example_database [[(''collection_name'', PStr ''users''), (''text'', PStr [])]]))
     ''list users'' 8 = Inr []"
  using retrieve_schema_context_no_header_only
          [of "example_database [[(''collection_name'', PStr ''users''), (''text'', PStr [])]]"
              "example_voyage ''key''" "''list users''" 8 example_python]
  by (simp add: example_database_def example_voyage_def vector_search_def get_embedding_def
        dict_get_def)

section \<open>Aggregation pipelines\<close>

lemma digit_chars:
  "char_of (48::nat) = CHR ''0''" "char_of (49::nat) = CHR ''1''" "char_of (50::nat) = CHR ''2''"
  "char_of (51::nat) = CHR ''3''" "char_of (52::nat) = CHR ''4''" "char_of (53::nat) = CHR ''5''"
  "char_of (54::nat) = CHR ''6''" "char_of (55::nat) = CHR ''7''" "char_of (56::nat) = CHR ''8''"
  "char_of (57::nat) = CHR ''9''"
  by code_simp+

lemma has_limit_dicts:
  "list_all is_dict pipeline \<Longrightarrow> has_limit pipeline = Inr (list_ex stage_has_limit pipeline)"
proof (induction pipeline)
  case Nil
  then show ?case by simp
next
  case (Cons s ss)
  then show ?case by (cases s) auto
qed

text \<open>
  C2, as the code has it. For a decoded list of stage objects: when no stage has a
  \<open>$limit\<close> other than \<open>null\<close> and \<open>limit_results\<close> is not 0, the pipeline handed to
  \<open>coll.aggregate\<close> is the given one followed by the single stage
  \<open>{"$limit": limit_results}\<close>; when some stage has such a limit, or \<open>limit_results\<close> is
  0, it is the given pipeline untouched. A decoded value that is not a list is answered
  with the fixed text and nothing is executed.
\<close>

theorem execute_aggregation_auto_limit:
  "(json_loads py pipeline_json = Inr (PList pipeline) \<and> list_all is_dict pipeline \<longrightarrow>
      limited_pipeline pipeline limit_results =
        Inr (if \<not> list_ex stage_has_limit pipeline \<and> limit_results \<noteq> 0
             then pipeline @ [PDict [(''$limit'', PInt limit_results)]] else pipeline) \<and>
      execute_aggregation py db collection_name pipeline_json limit_results =
        aggregation_reply py (coll_aggregate db collection_name
          (if \<not> list_ex stage_has_limit pipeline \<and> limit_results \<noteq> 0
           then pipeline @ [PDict [(''$limit'', PInt limit_results)]] else pipeline))) \<and>
   (json_loads py pipeline_json = Inr decoded \<and> (\<forall>xs. decoded \<noteq> PList xs) \<longrightarrow>
      execute_aggregation py db collection_name pipeline_json limit_results =
        Inr ''pipeline_json must be a JSON array of stages.'')"
proof (intro conjI impI)
  assume a: "json_loads py pipeline_json = Inr (PList pipeline) \<and> list_all is_dict pipeline"
  then show lp: "limited_pipeline pipeline limit_results =
        Inr (if \<not> list_ex stage_has_limit pipeline \<and> limit_results \<noteq> 0
             then pipeline @ [PDict [(''$limit'', PInt limit_results)]] else pipeline)"
    by (simp add: limited_pipeline_def has_limit_dicts)
  show "execute_aggregation py db collection_name pipeline_json limit_results =
        aggregation_reply py (coll_aggregate db collection_name
          (if \<not> list_ex stage_has_limit pipeline \<and> limit_results \<noteq> 0
           then pipeline @ [PDict [(''$limit'', PInt limit_results)]] else pipeline))"
    unfolding execute_aggregation_def execute_aggregation_try_def aggregation_reply_def
    using a lp by (simp split: sum.splits)
next
  assume "json_loads py pipeline_json = Inr decoded \<and> (\<forall>xs. decoded \<noteq> PList xs)"
  then show "execute_aggregation py db collection_name pipeline_json limit_results =
        Inr ''pipeline_json must be a JSON array of stages.''"
    by (cases decoded) (simp_all add: execute_aggregation_def execute_aggregation_try_def)
qed

lemma example_loads:
  \<open>json_loads example_python ''[{"$match": {}}]'' = Inr (PList [PDict [(''$match'', PDict [])]])\<close>
  \<open>json_loads example_python ''[{"$limit": 5}]'' = Inr (PList [PDict [(''$limit'', PInt 5)]])\<close>
  \<open>json_loads example_python ''{}'' = Inr (PDict [])\<close>
  \<open>json_loads example_python ''{"status": active}'' =
     Inl (JSONDecodeError ''Expecting value: line 1 column 12 (char 11)'')\<close>
  by (simp_all add: example_python_def)

lemma example_dumps:
  "json_dumps example_python (PList [a]) = Inr ''<1 records>''"
  "json_dumps example_python (PList [a, b]) = Inr ''<2 records>''"
  by (simp_all add: example_python_def digit_chars str_nat.simps)

theorem execute_aggregation_auto_limit_witness:
  \<open>execute_aggregation example_python counting_database ''orders'' ''[{"$match": {}}]'' 100
     = Inr ''<2 records>'' \<and>
   limited_pipeline [PDict [(''$match'', PDict [])]] 100
     = Inr [PDict [(''$match'', PDict [])], PDict [(''$limit'', PInt 100)]] \<and>
   execute_aggregation example_python counting_database ''orders'' ''[{"$limit": 5}]'' 100
     = Inr ''<1 records>'' \<and>
   execute_aggregation example_python counting_database ''orders'' ''{}'' 100
     = Inr ''pipeline_json must be a JSON array of stages.''\<close>
  using execute_aggregation_auto_limit
          [of example_python \<open>''[{"$match": {}}]''\<close> "[PDict [(''$match'', PDict [])]]" 100
              counting_database "''orders''" "PList [PDict [(''$match'', PDict [])]]"]
        execute_aggregation_auto_limit
          [of example_python \<open>''[{"$limit": 5}]''\<close> "[PDict [(''$limit'', PInt 5)]]" 100
              counting_database "''orders''" "PList [PDict [(''$limit'', PInt 5)]]"]
        execute_aggregation_auto_limit
          [of example_python \<open>''{}''\<close> "[]" 100 counting_database "''orders''" "PDict []"]
  by (simp add: example_loads example_dumps counting_database_def aggregation_reply_def dict_get_def)

text \<open>
  C2 as the claim words it, for every value of \<open>limit_results\<close>, fails at 0: the pipeline
  has no limit stage and none is appended.
\<close>

theorem execute_aggregation_zero_limit_counterexample:
  \<open>limited_pipeline [PDict [(''$match'', PDict [])]] 0 = Inr [PDict [(''$match'', PDict [])]] \<and>
   execute_aggregation example_python counting_database ''orders'' ''[{"$match": {}}]'' 0
     = Inr ''<1 records>''\<close>
  by (simp add: limited_pipeline_def dict_get_def execute_aggregation_def execute_aggregation_try_def
        example_loads example_dumps counting_database_def)

section \<open>Schema of a collection\<close>









section \<open>Batch embedding\<close>

text \<open>
  C9, as the code has it. \<open>get_embeddings\<close> returns the empty list for an empty input, and
  one empty vector per text (a list as long as the input) when the key is missing, when
  the service raises, or when it answers with no embeddings. When the service answers
  with embeddings, the list it gave is returned as it is, whatever its length.
\<close>

theorem get_embeddings_result:
  "(texts = [] \<longrightarrow> get_embeddings vo texts = []) \<and>
   (VOYAGE_API_KEY vo = [] \<or> (\<exists>e. embed vo texts = Inl e) \<or> embed vo texts = Inr [] \<longrightarrow>
      get_embeddings vo texts = replicate (length texts) [] \<and>
      length (get_embeddings vo texts) = length texts) \<and>
   (texts \<noteq> [] \<and> VOYAGE_API_KEY vo \<noteq> [] \<and> embed vo texts = Inr vs \<and> vs \<noteq> [] \<longrightarrow>
      get_embeddings vo texts = vs)"
  by (auto simp: get_embeddings_def split: sum.splits)

theorem get_embeddings_result_witness:
  "get_embeddings \<lparr>VOYAGE_API_KEY = [], embed = (\<lambda>ts. Inr (map (\<lambda>t. [1, 2]) ts))\<rparr> [''a'', ''b''] = [[], []] \<and>
   get_embeddings \<lparr>VOYAGE_API_KEY = ''key'', embed = (\<lambda>ts. Inl (Exception ''timeout''))\<rparr> [''a'', ''b''] = [[], []] \<and>
   get_embeddings \<lparr>VOYAGE_API_KEY = ''key'', embed = (\<lambda>ts. Inr (map (\<lambda>t. [1, 2]) ts))\<rparr> [] = [] \<and>
   get_embeddings \<lparr>VOYAGE_API_KEY = ''key'', embed = (\<lambda>ts. Inr (map (\<lambda>t. [1, 2]) ts))\<rparr>
     [''a'', ''b'', ''c''] = [[1, 2], [1, 2], [1, 2]]"
  using get_embeddings_result
          [of "[''a'', ''b'']" "\<lparr>VOYAGE_API_KEY = [], embed = (\<lambda>ts. Inr (map (\<lambda>t. [1, 2]) ts))\<rparr>"]
        get_embeddings_result
          [of "[''a'', ''b'']" "\<lparr>VOYAGE_API_KEY = ''key'', embed = (\<lambda>ts. Inl (Exception ''timeout''))\<rparr>"]
        get_embeddings_result
          [of "[]" "\<lparr>VOYAGE_API_KEY = ''key'', embed = (\<lambda>ts. Inr (map (\<lambda>t. [1, 2]) ts))\<rparr>"]
        get_embeddings_result
          [of "[''a'', ''b'', ''c'']" "\<lparr>VOYAGE_API_KEY = ''key'', embed = (\<lambda>ts. Inr (map (\<lambda>t. [1, 2]) ts))\<rparr>"
              "[[1, 2], [1, 2], [1, 2]]"]
  by simp

text \<open>
  C9 as the claim words it, for every input, fails where the service answers with fewer
  vectors than texts: the answer is returned unchecked.
\<close>

theorem get_embeddings_short_answer_counterexample:
  "get_embeddings \<lparr>VOYAGE_API_KEY = ''key'', embed = (\<lambda>ts. Inr [[1, 2]])\<rparr> [''a'', ''b'', ''c'']
     = [[1, 2]] \<and>
   length (get_embeddings \<lparr>VOYAGE_API_KEY = ''key'', embed = (\<lambda>ts. Inr [[1, 2]])\<rparr> [''a'', ''b'', ''c''])
     \<noteq> length [''a'', ''b'', ''c'']"
  by (simp add: get_embeddings_def)

section \<open>Tool failures are text\<close>

lemma execute_find_cases:
  "execute_find py db c filter_json projection_json limit =
     Inr (case decoded_or_empty py filter_json of
            Inl e \<Rightarrow> find_failure_text e
          | Inr filt \<Rightarrow>
        (case decoded_or_empty py projection_json of
            Inl e \<Rightarrow> find_failure_text e
          | Inr proj \<Rightarrow>
        (case coll_find db c (Some filt) (if truthy proj then Some proj else None) limit of
            Inl e \<Rightarrow> find_failure_text e
          | Inr docs \<Rightarrow>
        (case json_dumps py (serialize (PList (map PDict docs))) of
            Inl e \<Rightarrow> find_failure_text e
          | Inr text \<Rightarrow> text))))"
proof (cases "decoded_or_empty py filter_json")
  case (Inl e)
  then show ?thesis
    by (cases e) (simp_all add: execute_find_def execute_find_try_def decoded_or_empty_def)
next
  case f: (Inr filt)
  show ?thesis
  proof (cases "decoded_or_empty py projection_json")
    case (Inl e)
    then show ?thesis using f
      by (cases e) (simp_all add: execute_find_def execute_find_try_def decoded_or_empty_def)
  next
    case p: (Inr proj)
    show ?thesis
    proof (cases "coll_find db c (Some filt) (if truthy proj then Some proj else None) limit")
      case (Inl e)
      then show ?thesis using f p
        by (cases e) (simp_all add: execute_find_def execute_find_try_def decoded_or_empty_def)
    next
      case d: (Inr docs)
      show ?thesis
      proof (cases "json_dumps py (serialize (PList (map PDict docs)))")
        case (Inl e)
        then show ?thesis using f p d
          by (cases e) (simp_all add: execute_find_def execute_find_try_def decoded_or_empty_def)
      next
        case (Inr out)
        then show ?thesis using f p d
          by (simp add: execute_find_def execute_find_try_def decoded_or_empty_def)
      qed
    qed
  qed
qed


lemma execute_aggregation_cases:
  "execute_aggregation py db c pipeline_json limit_results =
     Inr (case json_loads py pipeline_json of
            Inl e \<Rightarrow> aggregation_failure_text e
          | Inr decoded \<Rightarrow>
        (case decoded of
            PList pipeline \<Rightarrow>
              (case limited_pipeline pipeline limit_results of
                 Inl e \<Rightarrow> aggregation_failure_text e
               | Inr pipeline' \<Rightarrow>
              (case coll_aggregate db c pipeline' of
                 Inl e \<Rightarrow> aggregation_failure_text e
               | Inr docs \<Rightarrow>
              (case json_dumps py (serialize (PList (map PDict docs))) of
                 Inl e \<Rightarrow> aggregation_failure_text e
               | Inr out \<Rightarrow> out)))
          | _ \<Rightarrow> ''pipeline_json must be a JSON array of stages.''))"
proof (cases "json_loads py pipeline_json")
  case (Inl e)
  then show ?thesis
    by (cases e) (simp_all add: execute_aggregation_def execute_aggregation_try_def)
next
  case l: (Inr decoded)
  show ?thesis
  proof (cases "\<exists>pipeline. decoded = PList pipeline")
    case False
    then show ?thesis using l
      by (cases decoded) (simp_all add: execute_aggregation_def execute_aggregation_try_def)
  next
    case True
    then obtain pipeline where dp: "decoded = PList pipeline" by blast
    show ?thesis
    proof (cases "limited_pipeline pipeline limit_results")
      case (Inl e)
      then show ?thesis using l dp
        by (cases e) (simp_all add: execute_aggregation_def execute_aggregation_try_def)
    next
      case lp: (Inr pipeline')
      show ?thesis
      proof (cases "coll_aggregate db c pipeline'")
        case (Inl e)
        then show ?thesis using l dp lp
          by (cases e) (simp_all add: execute_aggregation_def execute_aggregation_try_def)
      next
        case d: (Inr docs)
        show ?thesis
        proof (cases "json_dumps py (serialize (PList (map PDict docs)))")
          case (Inl e)
          then show ?thesis using l dp lp d
            by (cases e) (simp_all add: execute_aggregation_def execute_aggregation_try_def)
        next
          case (Inr out)
          then show ?thesis using l dp lp d
            by (simp add: execute_aggregation_def execute_aggregation_try_def)
        qed
      qed
    qed
  qed
qed

text \<open>
  C8. Each of the four tools returns a string and lets no exception out, whatever the
  library and the database do. The string is the result on success: the listing of the
  names, the schema lines, the serialised documents. Otherwise it describes the failure:
  the text of the exception after the tool's own prefix, for a failure of the database, of
  the parse of the filter, the projection or the pipeline, or of the serialisation. A
  filter that does not parse is answered with the text of the parse error.
\<close>

theorem tools_return_text:
  "list_collections db =
     Inr (case list_collection_names db of
            Inl e \<Rightarrow> ''Error listing collections: '' @ exn_text e
          | Inr names \<Rightarrow>
              ''Collections in database '' @ [CHR 0x27] @ ''inferyx'' @ [CHR 0x27] @ '': '' @
              (if join '', '' names = [] then ''None'' else join '', '' names)) \<and>
   get_collection_schema py db c n =
     Inr (case coll_find db c None None n of
            Inl e \<Rightarrow>
              ''Error getting schema for '' @ [CHR 0x27] @ c @ [CHR 0x27] @ '': '' @ exn_text e
          | Inr docs \<Rightarrow>
              if docs = []
              then ''Collection '' @ [CHR 0x27] @ c @ [CHR 0x27] @ '' is empty or does not exist.''
              else join ''\<newline>'' (schema_lines py c docs)) \<and>
   execute_find py db c filter_json projection_json limit =
     Inr (case decoded_or_empty py filter_json of
            Inl e \<Rightarrow> find_failure_text e
          | Inr filt \<Rightarrow>
        (case decoded_or_empty py projection_json of
            Inl e \<Rightarrow> find_failure_text e
          | Inr proj \<Rightarrow>
        (case coll_find db c (Some filt) (if truthy proj then Some proj else None) limit of
            Inl e \<Rightarrow> find_failure_text e
          | Inr docs \<Rightarrow>
        (case json_dumps py (serialize (PList (map PDict docs))) of
            Inl e \<Rightarrow> find_failure_text e
          | Inr out \<Rightarrow> out)))) \<and>
   execute_aggregation py db c pipeline_json limit_results =
     Inr (case json_loads py pipeline_json of
            Inl e \<Rightarrow> aggregation_failure_text e
          | Inr decoded \<Rightarrow>
        (case decoded of
            PList pipeline \<Rightarrow>
              (case limited_pipeline pipeline limit_results of
                 Inl e \<Rightarrow> aggregation_failure_text e
               | Inr pipeline' \<Rightarrow>
              (case coll_aggregate db c pipeline' of
                 Inl e \<Rightarrow> aggregation_failure_text e
               | Inr docs \<Rightarrow>
              (case json_dumps py (serialize (PList (map PDict docs))) of
                 Inl e \<Rightarrow> aggregation_failure_text e
               | Inr out \<Rightarrow> out)))
          | _ \<Rightarrow> ''pipeline_json must be a JSON array of stages.'')) \<and>
   (strip filter_json \<noteq> [] \<and> json_loads py filter_json = Inl (JSONDecodeError m) \<longrightarrow>
      execute_find py db c filter_json projection_json limit =
        Inr (''Invalid JSON in filter or projection: '' @ m))"
proof (intro conjI impI)
  show "list_collections db =
     Inr (case list_collection_names db of
            Inl e \<Rightarrow> ''Error listing collections: '' @ exn_text e
          | Inr names \<Rightarrow>
              ''Collections in database '' @ [CHR 0x27] @ ''inferyx'' @ [CHR 0x27] @ '': '' @
              (if join '', '' names = [] then ''None'' else join '', '' names))"
    by (simp add: list_collections_def split: sum.splits)
  show "get_collection_schema py db c n =
     Inr (case coll_find db c None None n of
            Inl e \<Rightarrow>
              ''Error getting schema for '' @ [CHR 0x27] @ c @ [CHR 0x27] @ '': '' @ exn_text e
          | Inr docs \<Rightarrow>
              if docs = []
              then ''Collection '' @ [CHR 0x27] @ c @ [CHR 0x27] @ '' is empty or does not exist.''
              else join ''\<newline>'' (schema_lines py c docs))"
    by (simp add: get_collection_schema_def split: sum.splits)
  show "execute_find py db c filter_json projection_json limit =
     Inr (case decoded_or_empty py filter_json of
            Inl e \<Rightarrow> find_failure_text e
          | Inr filt \<Rightarrow>
        (case decoded_or_empty py projection_json of
            Inl e \<Rightarrow> find_failure_text e
          | Inr proj \<Rightarrow>
        (case coll_find db c (Some filt) (if truthy proj then Some proj else None) limit of
            Inl e \<Rightarrow> find_failure_text e
          | Inr docs \<Rightarrow>
        (case json_dumps py (serialize (PList (map PDict docs))) of
            Inl e \<Rightarrow> find_failure_text e
          | Inr out \<Rightarrow> out))))"
    by (rule execute_find_cases)
  show "execute_aggregation py db c pipeline_json limit_results =
     Inr (case json_loads py pipeline_json of
            Inl e \<Rightarrow> aggregation_failure_text e
          | Inr decoded \<Rightarrow>
        (case decoded of
            PList pipeline \<Rightarrow>
              (case limited_pipeline pipeline limit_results of
                 Inl e \<Rightarrow> aggregation_failure_text e
               | Inr pipeline' \<Rightarrow>
              (case coll_aggregate db c pipeline' of
                 Inl e \<Rightarrow> aggregation_failure_text e
               | Inr docs \<Rightarrow>
              (case json_dumps py (serialize (PList (map PDict docs))) of
                 Inl e \<Rightarrow> aggregation_failure_text e
               | Inr out \<Rightarrow> out)))
          | _ \<Rightarrow> ''pipeline_json must be a JSON array of stages.''))"
    by (rule execute_aggregation_cases)
next
  assume "strip filter_json \<noteq> [] \<and> json_loads py filter_json = Inl (JSONDecodeError m)"
  then show "execute_find py db c filter_json projection_json limit =
        Inr (''Invalid JSON in filter or projection: '' @ m)"
    by (simp add: execute_find_def execute_find_try_def)
qed

lemma example_loads_more:
  "json_loads example_python ''[]'' = Inr (PList [])"
  by (simp add: example_python_def)

lemma strip_examples:
  \<open>strip ''{"status": active}'' \<noteq> []\<close> \<open>strip ''{}'' \<noteq> []\<close> \<open>strip [CHR 0xA0] = []\<close>
  by (simp_all add: strip_def is_space_def)

lemma example_dumps_more:
  "json_dumps example_python (PList []) = Inr ''<0 records>''"
  by (simp add: example_python_def digit_chars str_nat.simps)

theorem tools_return_text_witness:
  \<open>execute_find example_python (example_database []) ''users'' ''{"status": active}'' ''{}'' 50 =
     Inr ''Invalid JSON in filter or projection: Expecting value: line 1 column 12 (char 11)'' \<and>
   execute_find example_python failing_database ''users'' ''{}'' ''{}'' 50 =
     Inr ''Error executing find: connection refused'' \<and>
   execute_find example_python (example_database [[(''a'', PInt 1)]]) ''users'' ''{}'' ''{}'' 50 =
     Inr ''<1 records>'' \<and>
   execute_find example_python (example_database []) ''users'' [CHR 0xA0] ''{}'' 50 =
     Inr ''<0 records>'' \<and>
   list_collections failing_database = Inr ''Error listing collections: connection refused'' \<and>
   list_collections (example_database []) = Inr ''Collections in database 'inferyx': users, orders'' \<and>
   execute_aggregation example_python failing_database ''users'' ''[]'' 100 =
     Inr ''Error executing aggregation: connection refused''\<close>
  using tools_return_text
          [of "example_database []" example_python "''users''" 3 \<open>''{"status": active}''\<close> "''{}''" 50
              "''[]''" 100 "''Expecting value: line 1 column 12 (char 11)''"]
        tools_return_text
          [of failing_database example_python "''users''" 3 "''{}''" "''{}''" 50 "''[]''" 100]
        tools_return_text
          [of "example_database [[(''a'', PInt 1)]]" example_python "''users''" 3 "''{}''" "''{}''" 50
              "''[]''" 100]
        tools_return_text
          [of "example_database []" example_python "''users''" 3 "[CHR 0xA0]" "''{}''" 50 "''[]''" 100]
  by (simp add: example_loads example_loads_more example_dumps example_dumps_more strip_examples
        decoded_or_empty_def failing_database_def example_database_def limited_pipeline_def)

section \<open>The system text and the prompt\<close>

lemma system_template_text: "format_template vars None SYSTEM_TEMPLATE = Inr ''{system}''"
  by (simp add: SYSTEM_TEMPLATE_def emit_def)

lemma prompt_literal: "prompt system messages = Inr (SystemMessage (PStr ''{system}'') # messages)"
  by (simp add: prompt_def system_template_text)

lemma agent_node_literal:
  "agent_node env messages =
     (case full_system env messages of
        Inl e \<Rightarrow> Inl e
      | Inr s \<Rightarrow>
          (case llm_with_tools env (SystemMessage (PStr ''{system}'') # messages) of
             Inl e \<Rightarrow> Inl e
           | Inr (c, tcs) \<Rightarrow> Inr [AIMessage c tcs]))"
  by (simp add: agent_node_def prompt_literal split: sum.splits)

lemma base_system_not_literal: "BASE_SYSTEM \<noteq> ''{system}''"
  by (simp add: BASE_SYSTEM_def)

text \<open>
  C3, what the code does. When \<open>get_database()\<close> raises, \<open>retrieve_schema_context\<close>
  raises with it, also when there is no vector: the call is its first statement and stands
  in no \<open>try\<close>. With the handle obtained, no vector (an empty query, an absent key, a
  service that raises or answers with nothing) gives the empty string, and the text the
  agent node builds is \<open>BASE_SYSTEM\<close> itself. That text does not reach the model: the
  template \<open>{{system}}\<close> is an escaped literal, so the system message the model is called
  with is \<open>{system}\<close>.
\<close>

theorem retrieval_degrade_as_coded:
  "retrieve_schema_context py vo (Inl e) q k = Inl e \<and>
   (q = [] \<or> VOYAGE_API_KEY vo = [] \<or> (\<exists>x. embed vo [q] = Inl x) \<or> embed vo [q] = Inr [] \<longrightarrow>
      get_embedding vo q = []) \<and>
   (get_embedding vo q = [] \<longrightarrow> retrieve_schema_context py vo (Inr db) q k = Inr []) \<and>
   (get_database env = Inr db \<and>
    get_embedding (env_vo env) (get_last_user_text (env_py env) messages) = [] \<longrightarrow>
      schema_ctx env messages = Inr [] \<and> full_system env messages = Inr BASE_SYSTEM \<and>
      agent_node env messages =
        (case llm_with_tools env (SystemMessage (PStr ''{system}'') # messages) of
           Inl x \<Rightarrow> Inl x
         | Inr (c, tcs) \<Rightarrow> Inr [AIMessage c tcs]))"
proof (intro conjI impI)
  show "retrieve_schema_context py vo (Inl e) q k = Inl e"
    by (simp add: retrieve_schema_context_def)
  show "get_embedding vo q = []"
    if "q = [] \<or> VOYAGE_API_KEY vo = [] \<or> (\<exists>x. embed vo [q] = Inl x) \<or> embed vo [q] = Inr []"
    using that by (auto simp: get_embedding_def)
  show "retrieve_schema_context py vo (Inr db) q k = Inr []" if "get_embedding vo q = []"
    using that by (simp add: retrieve_schema_context_def)
next
  assume a: "get_database env = Inr db \<and>
    get_embedding (env_vo env) (get_last_user_text (env_py env) messages) = []"
  then show s: "schema_ctx env messages = Inr []"
    by (simp add: schema_ctx_def retrieve_schema_context_def Let_def)
  then show f: "full_system env messages = Inr BASE_SYSTEM"
    by (simp add: full_system_def)
  then show "agent_node env messages =
        (case llm_with_tools env (SystemMessage (PStr ''{system}'') # messages) of
           Inl x \<Rightarrow> Inl x
         | Inr (c, tcs) \<Rightarrow> Inr [AIMessage c tcs])"
    by (simp add: agent_node_literal)
qed

lemma echo_env_fields:
  "env_py echo_env = example_python" "env_vo echo_env = example_voyage []"
  "get_database echo_env = Inr (example_database [])"
  "llm_with_tools echo_env (SystemMessage c # rest) = Inr (c, [])"
  "recursion_limit echo_env = 25"
  by (simp_all add: echo_env_def)

lemma example_voyage_no_key: "get_embedding (example_voyage []) q = []"
  by (simp add: get_embedding_def example_voyage_def)

theorem retrieval_degrade_as_coded_witness:
  "retrieve_schema_context example_python (example_voyage []) unconfigured ''list users'' 8 =
     Inl (Exception ''Empty host (or extra comma in host list).'') \<and>
   retrieve_schema_context example_python (example_voyage []) (Inr (example_database []))
     ''list users'' 8 = Inr [] \<and>
   full_system echo_env [HumanMessage (PStr ''list users'')] = Inr BASE_SYSTEM \<and>
   agent_node echo_env [HumanMessage (PStr ''list users'')] = Inr [AIMessage (PStr ''{system}'') []] \<and>
   BASE_SYSTEM \<noteq> ''{system}''"
  using retrieval_degrade_as_coded
          [of example_python "example_voyage []" "Exception ''Empty host (or extra comma in host list).''"
              "''list users''" 8 "example_database []" echo_env "[HumanMessage (PStr ''list users'')]"]
        example_voyage_no_key base_system_not_literal
  by (simp add: unconfigured_def echo_env_fields)

section \<open>The agent loop\<close>

lemma last_user_text_loop_skip:
  "list_all (\<lambda>m. \<not> is_human m) xs \<Longrightarrow>
   last_user_text_loop py (xs @ ys) = last_user_text_loop py ys"
proof (induction xs)
  case Nil
  then show ?case by simp
next
  case (Cons m xs)
  then show ?case by (cases m) auto
qed

lemma get_last_user_text_anchor:
  assumes "list_all (\<lambda>m. \<not> is_human m) rest" and "t \<noteq> []"
  shows "get_last_user_text py (pre @ HumanMessage (PStr t) # rest) = t"
proof -
  have "list_all (\<lambda>m. \<not> is_human m) (rev rest)" using assms(1) by simp
  then have "last_user_text_loop py (rev rest @ HumanMessage (PStr t) # rev pre)
             = last_user_text_loop py (HumanMessage (PStr t) # rev pre)"
    by (rule last_user_text_loop_skip)
  then show ?thesis using assms(2) by (simp add: get_last_user_text_def)
qed

lemma get_last_user_text_seed:
  assumes "list_all (\<lambda>m. \<not> is_human m) rest"
  shows "get_last_user_text py (HumanMessage (PStr q) # rest) = q"
proof -
  have "list_all (\<lambda>m. \<not> is_human m) (rev rest)" using assms(1) by simp
  then have "last_user_text_loop py (rev rest @ [HumanMessage (PStr q)])
             = last_user_text_loop py [HumanMessage (PStr q)]"
    by (rule last_user_text_loop_skip)
  then show ?thesis by (simp add: get_last_user_text_def)
qed

lemma agent_node_ai:
  "agent_node env messages = Inr new \<Longrightarrow> \<exists>c tcs. new = [AIMessage c tcs]"
  by (auto simp: agent_node_literal split: sum.splits prod.splits)

lemma tool_node_no_human: "list_all (\<lambda>m. \<not> is_human m) (tool_node env messages)"
  by (auto simp: tool_node_def list_all_iff split: list.splits)

lemma agent_entry_seeded:
  "agent_entry n env [HumanMessage (PStr q)] = Some messages \<Longrightarrow>
   \<exists>rest. messages = HumanMessage (PStr q) # rest \<and> list_all (\<lambda>m. \<not> is_human m) rest"
proof (induction n arbitrary: messages)
  case 0
  then show ?case by auto
next
  case (Suc n)
  from Suc.prems obtain before new where
    b: "agent_entry n env [HumanMessage (PStr q)] = Some before"
    and n: "agent_node env before = Inr new"
    and m: "messages = before @ new @ tool_node env (before @ new)"
    by (auto split: option.splits sum.splits if_splits)
  obtain rest where r: "before = HumanMessage (PStr q) # rest" "list_all (\<lambda>m. \<not> is_human m) rest"
    using Suc.IH[OF b] by blast
  obtain c tcs where a: "new = [AIMessage c tcs]"
    using n agent_node_ai by blast
  show ?case
    using r a m tool_node_no_human[of env "before @ new"] by simp
qed

lemma agent_entry_steps:
  "agent_entry n env init = Some messages \<Longrightarrow> 2 * n \<le> limit \<Longrightarrow>
   graph_steps limit env init = graph_steps (limit - 2 * n) env messages"
proof (induction n arbitrary: messages)
  case 0
  then show ?case by simp
next
  case (Suc n)
  from Suc.prems(1) obtain before new where
    b: "agent_entry n env init = Some before"
    and n: "agent_node env before = Inr new"
    and r: "route_after_agent (before @ new) = Inr ''tools''"
    and m: "messages = before @ new @ tool_node env (before @ new)"
    by (auto split: option.splits sum.splits if_splits)
  define j where "j = limit - 2 * Suc n"
  have j: "limit - 2 * n = Suc (Suc j)" "limit - 2 * Suc n = j"
    using Suc.prems(2) by (simp_all add: j_def)
  have "graph_steps limit env init = graph_steps (limit - 2 * n) env before"
    using Suc.IH[OF b] Suc.prems(2) by simp
  also have "\<dots> = graph_steps j env messages"
    using j(1) n r m by simp
  finally show ?case using j(2) by simp
qed

text \<open>
  C5, what the code does. At every entry of the agent node in a run seeded with the single
  user message \<open>q\<close>, the text the retrieval is asked with is \<open>q\<close> (for an empty \<open>q\<close> no
  retrieval is made), and the text the node builds is the base instructions, followed by
  a blank line and the retrieved context when there is one. The model is not called with
  that text: its system message is the literal \<open>{system}\<close>. In any transcript, the text
  of the last user message is returned when it is a non-empty string followed by no other
  user message.
\<close>

theorem system_prompt_rebuilt_not_sent:
  "(agent_entry n env [HumanMessage (PStr q)] = Some messages \<longrightarrow>
      (2 * n \<le> recursion_limit env \<longrightarrow>
         run_graph env [HumanMessage (PStr q)] =
           graph_steps (recursion_limit env - 2 * n) env messages) \<and>
      get_last_user_text (env_py env) messages = q \<and>
      schema_ctx env messages =
        (if q \<noteq> []
         then retrieve_schema_context (env_py env) (env_vo env) (get_database env) q 8
         else Inr []) \<and>
      full_system env messages =
        (case schema_ctx env messages of
           Inl x \<Rightarrow> Inl x
         | Inr ctx \<Rightarrow>
             Inr (if ctx \<noteq> [] then BASE_SYSTEM @ ''\<newline>\<newline>'' @ ctx else BASE_SYSTEM)) \<and>
      agent_node env messages =
        (case full_system env messages of
           Inl x \<Rightarrow> Inl x
         | Inr system \<Rightarrow>
             (case llm_with_tools env (SystemMessage (PStr ''{system}'') # messages) of
                Inl x \<Rightarrow> Inl x
              | Inr (c, tcs) \<Rightarrow> Inr [AIMessage c tcs]))) \<and>
   (t \<noteq> [] \<and> list_all (\<lambda>m. \<not> is_human m) rest \<longrightarrow>
      get_last_user_text py (pre @ HumanMessage (PStr t) # rest) = t)"
proof (intro conjI impI)
  assume a: "agent_entry n env [HumanMessage (PStr q)] = Some messages"
  then obtain rest where r: "messages = HumanMessage (PStr q) # rest" "list_all (\<lambda>m. \<not> is_human m) rest"
    using agent_entry_seeded by blast
  show "run_graph env [HumanMessage (PStr q)] =
           graph_steps (recursion_limit env - 2 * n) env messages"
    if "2 * n \<le> recursion_limit env"
    using a that unfolding run_graph_def by (rule agent_entry_steps)
  show g: "get_last_user_text (env_py env) messages = q"
    using r get_last_user_text_seed by simp
  show "schema_ctx env messages =
        (if q \<noteq> []
         then retrieve_schema_context (env_py env) (env_vo env) (get_database env) q 8
         else Inr [])"
    using g by (simp add: schema_ctx_def)
  show "full_system env messages =
        (case schema_ctx env messages of
           Inl x \<Rightarrow> Inl x
         | Inr ctx \<Rightarrow>
             Inr (if ctx \<noteq> [] then BASE_SYSTEM @ ''\<newline>\<newline>'' @ ctx else BASE_SYSTEM))"
    by (simp add: full_system_def split: sum.splits)
  show "agent_node env messages =
        (case full_system env messages of
           Inl x \<Rightarrow> Inl x
         | Inr system \<Rightarrow>
             (case llm_with_tools env (SystemMessage (PStr ''{system}'') # messages) of
                Inl x \<Rightarrow> Inl x
              | Inr (c, tcs) \<Rightarrow> Inr [AIMessage c tcs]))"
    by (rule agent_node_literal)
next
  assume "t \<noteq> [] \<and> list_all (\<lambda>m. \<not> is_human m) rest"
  then show "get_last_user_text py (pre @ HumanMessage (PStr t) # rest) = t"
    using get_last_user_text_anchor by blast
qed

lemma full_system_ok:
  "get_database env = Inr db \<Longrightarrow> \<exists>s. full_system env messages = Inr s"
  by (simp add: full_system_def schema_ctx_def retrieve_schema_context_def Let_def)

lemma agent_node_always:
  assumes "get_database env = Inr db" and "always_requests_tools env"
  shows "\<exists>c tcs. agent_node env messages = Inr [AIMessage c tcs] \<and> tcs \<noteq> []"
proof -
  obtain s where s: "full_system env messages = Inr s"
    using assms(1) full_system_ok by blast
  obtain c tcs where ct:
    "llm_with_tools env (SystemMessage (PStr ''{system}'') # messages) = Inr (c, tcs)" "tcs \<noteq> []"
    using assms(2) unfolding always_requests_tools_def by blast
  show ?thesis using s ct by (simp add: agent_node_literal)
qed

lemma graph_steps_always:
  assumes "get_database env = Inr db" and "always_requests_tools env"
  shows "graph_steps n env messages = Inl (graph_recursion_error (recursion_limit env))"
proof (induction n arbitrary: messages rule: less_induct)
  case (less n)
  obtain c tcs where a: "agent_node env messages = Inr [AIMessage c tcs]" "tcs \<noteq> []"
    using agent_node_always[OF assms] by blast
  have r: "route_after_agent (messages @ [AIMessage c tcs]) = Inr ''tools''"
    using a(2) by (simp add: route_after_agent_def)
  show ?case
  proof (cases n)
    case 0
    then show ?thesis by simp
  next
    case (Suc k)
    show ?thesis
    proof (cases k)
      case 0
      then show ?thesis using Suc a r by simp
    next
      case (Suc j)
      have "j < n" using Suc \<open>n = Suc k\<close> by simp
      then show ?thesis using Suc \<open>n = Suc k\<close> a r less.IH[of j] by simp
    qed
  qed
qed

lemma graph_steps_returns_final:
  "graph_steps n env messages = Inr transcript \<Longrightarrow>
   \<exists>pre c. transcript = messages @ pre @ [AIMessage c []]"
proof (induction n arbitrary: messages rule: less_induct)
  case (less n)
  show ?case
  proof (cases n)
    case 0
    then show ?thesis using less.prems by simp
  next
    case (Suc k)
    from less.prems Suc obtain new where new: "agent_node env messages = Inr new"
      by (cases k; cases "agent_node env messages") auto
    then obtain c tcs where ai: "new = [AIMessage c tcs]"
      using agent_node_ai by blast
    have route: "route_after_agent (messages @ new) = Inr (if tcs \<noteq> [] then ''tools'' else ''__end__'')"
      using ai by (simp add: route_after_agent_def)
    show ?thesis
    proof (cases "tcs = []")
      case True
      then have "transcript = messages @ [AIMessage c []]"
        using less.prems Suc new ai route by (cases k) auto
      then show ?thesis by (intro exI[of _ "[]"] exI[of _ c]) simp
    next
      case False
      then obtain j where j: "k = Suc j"
        using less.prems Suc new ai route by (cases k) auto
      have "graph_steps j env (messages @ new @ tool_node env (messages @ new)) = Inr transcript"
        using less.prems Suc j new ai route False by simp
      moreover have "j < n" using Suc j by simp
      ultimately obtain pre c' where
        "transcript = (messages @ new @ tool_node env (messages @ new)) @ pre @ [AIMessage c' []]"
        using less.IH by blast
      then show ?thesis
        by (intro exI[of _ "new @ tool_node env (messages @ new) @ pre"] exI[of _ c']) simp
    qed
  qed
qed

text \<open>
  C1, as the code has it. The source sets no bound of its own; the run is cut by the
  recursion limit of the graph library. Under a model that asks for a tool in every call
  (and with the database handle obtained) the run does not go on for ever and returns
  nothing: it ends by the library's \<open>GraphRecursionError\<close>, which leaves \<open>run_agent\<close>. What
  a run returns is always a transcript that ends with a model message without tool
  requests, with the answer taken from it; there is no returned outcome for an exceeded
  budget.
\<close>

theorem agent_loop_bounded_by_recursion_limit:
  "(get_database env = Inr db \<and> always_requests_tools env \<longrightarrow>
      run_graph env messages = Inl (graph_recursion_error (recursion_limit env)) \<and>
      run_agent env q = Inl (graph_recursion_error (recursion_limit env))) \<and>
   (run_graph env messages = Inr transcript \<longrightarrow>
      (\<exists>pre c. transcript = messages @ pre @ [AIMessage c []])) \<and>
   (run_agent env q = Inr (answer, transcript) \<longrightarrow>
      (\<exists>pre c. transcript = HumanMessage (PStr q) # pre @ [AIMessage c []]) \<and>
      answer = final_text transcript)"
proof (intro conjI impI)
  assume a: "get_database env = Inr db \<and> always_requests_tools env"
  then have g: "graph_steps n env ms = Inl (graph_recursion_error (recursion_limit env))" for n ms
    using graph_steps_always by blast
  show "run_graph env messages = Inl (graph_recursion_error (recursion_limit env))"
    by (simp add: run_graph_def g)
  show "run_agent env q = Inl (graph_recursion_error (recursion_limit env))"
    using a by (simp add: run_agent_def run_graph_def g)
next
  assume "run_graph env messages = Inr transcript"
  then show "\<exists>pre c. transcript = messages @ pre @ [AIMessage c []]"
    unfolding run_graph_def by (rule graph_steps_returns_final)
next
  assume r: "run_agent env q = Inr (answer, transcript)"
  then have g: "run_graph env [HumanMessage (PStr q)] = Inr transcript"
    by (auto simp: run_agent_def split: sum.splits)
  then have "\<exists>pre c. transcript = [HumanMessage (PStr q)] @ pre @ [AIMessage c []]"
    unfolding run_graph_def by (rule graph_steps_returns_final)
  then show "\<exists>pre c. transcript = HumanMessage (PStr q) # pre @ [AIMessage c []]" by simp
  show "answer = final_text transcript"
    using r g by (auto simp: run_agent_def split: sum.splits)
qed

lemma looping_env_always: "always_requests_tools looping_env"
  by (simp add: always_requests_tools_def looping_env_def example_call_def)

lemma looping_env_fields:
  "get_database looping_env = Inr (example_database [])" "recursion_limit looping_env = 25"
  by (simp_all add: looping_env_def)

lemma example_env_fields:
  "env_py (example_env k) = example_python"
  "get_database (example_env k) =
     Inr (example_database [[(''collection_name'', PStr ''users''), (''text'', PStr ''accounts'')]])"
  "invoke_tool (example_env k) tc = ''users, orders''"
  "recursion_limit (example_env k) = 25"
  "llm_with_tools (example_env k) rendered =
     (if length rendered < 2 * k + 1 then Inr (PStr ''checking'', [example_call])
      else Inr (PStr ''done'', []))"
  by (simp_all add: example_env_def)

lemma example_agent_node:
  "agent_node (example_env k) messages =
     Inr [if length messages < 2 * k then AIMessage (PStr ''checking'') [example_call]
          else AIMessage (PStr ''done'') []]"
proof -
  obtain s where "full_system (example_env k) messages = Inr s"
    using full_system_ok[OF example_env_fields(2)] by blast
  then show ?thesis by (simp add: agent_node_literal example_env_fields)
qed

lemma recursion_error_25:
  "graph_recursion_error 25 =
     Exception ''Recursion limit of 25 reached without hitting a stop condition.''"
  by (simp add: graph_recursion_error_def str_nat.simps digit_chars)

lemma example_run_3:
  "run_graph (example_env 3) [HumanMessage (PStr ''list users'')] =
     Inr (HumanMessage (PStr ''list users'') #
       concat (replicate 3 [AIMessage (PStr ''checking'') [example_call],
                            ToolMessage (PStr ''users, orders'') ''call_1'']) @
       [AIMessage (PStr ''done'') []])"
  by (simp add: run_graph_def eval_nat_numeral example_agent_node route_after_agent_def tool_node_def
        example_env_fields example_call_def)

lemma example_run_40:
  "run_graph (example_env 40) [HumanMessage (PStr ''list users'')] =
     Inl (graph_recursion_error 25)"
  by (simp add: run_graph_def eval_nat_numeral example_agent_node route_after_agent_def tool_node_def
        example_env_fields example_call_def)

theorem agent_loop_bounded_by_recursion_limit_witness:
  "run_agent looping_env ''list users'' =
     Inl (Exception ''Recursion limit of 25 reached without hitting a stop condition.'') \<and>
   run_graph (example_env 3) [HumanMessage (PStr ''list users'')] =
     Inr (HumanMessage (PStr ''list users'') #
       concat (replicate 3 [AIMessage (PStr ''checking'') [example_call],
                            ToolMessage (PStr ''users, orders'') ''call_1'']) @
       [AIMessage (PStr ''done'') []]) \<and>
   run_graph (example_env 40) [HumanMessage (PStr ''list users'')] =
     Inl (Exception ''Recursion limit of 25 reached without hitting a stop condition.'')"
  using agent_loop_bounded_by_recursion_limit
          [of looping_env "example_database []" "[HumanMessage (PStr ''list users'')]" "''list users''"]
        looping_env_always looping_env_fields example_run_3 example_run_40 recursion_error_25
  by simp

text \<open>
  C1 as the claim words it fails for the model that asks for \<open>list_collections\<close> in every
  call: when the limit is reached \<open>run_agent\<close> raises, and returns no outcome.
\<close>

theorem run_agent_looping_counterexample:
  "run_agent looping_env ''list users'' =
     Inl (Exception ''Recursion limit of 25 reached without hitting a stop condition.'') \<and>
   \<not> (\<exists>outcome. run_agent looping_env ''list users'' = Inr outcome)"
proof -
  have "graph_steps 25 looping_env [HumanMessage (PStr ''list users'')] =
          Inl (graph_recursion_error (recursion_limit looping_env))"
    using graph_steps_always[OF looping_env_fields(1) looping_env_always] by blast
  then have "run_agent looping_env ''list users'' = Inl (graph_recursion_error 25)"
    by (simp add: run_agent_def run_graph_def looping_env_fields)
  then show ?thesis by (simp add: recursion_error_25)
qed

lemma example_entry:
  "agent_entry 1 (example_env 1) [HumanMessage (PStr ''list users'')] =
     Some [HumanMessage (PStr ''list users''), AIMessage (PStr ''checking'') [example_call],
           ToolMessage (PStr ''users, orders'') ''call_1'']"
  by (simp add: example_agent_node route_after_agent_def tool_node_def example_env_fields
        example_call_def)

lemma echo_agent_node:
  "agent_node echo_env [HumanMessage (PStr ''list users'')] = Inr [AIMessage (PStr ''{system}'') []]"
proof -
  obtain s where "full_system echo_env [HumanMessage (PStr ''list users'')] = Inr s"
    using full_system_ok[OF echo_env_fields(3)] by blast
  then show ?thesis by (simp add: agent_node_literal echo_env_fields)
qed

theorem system_prompt_rebuilt_not_sent_witness:
  "agent_entry 1 (example_env 1) [HumanMessage (PStr ''list users'')] =
     Some [HumanMessage (PStr ''list users''), AIMessage (PStr ''checking'') [example_call],
           ToolMessage (PStr ''users, orders'') ''call_1''] \<and>
   get_last_user_text example_python
     [HumanMessage (PStr ''list users''), AIMessage (PStr ''checking'') [example_call],
      ToolMessage (PStr ''users, orders'') ''call_1''] = ''list users'' \<and>
   schema_ctx (example_env 1)
     [HumanMessage (PStr ''list users''), AIMessage (PStr ''checking'') [example_call],
      ToolMessage (PStr ''users, orders'') ''call_1''] =
   retrieve_schema_context example_python (example_voyage ''key'')
     (Inr (example_database [[(''collection_name'', PStr ''users''), (''text'', PStr ''accounts'')]]))
     ''list users'' 8 \<and>
   agent_node echo_env [HumanMessage (PStr ''list users'')] = Inr [AIMessage (PStr ''{system}'') []] \<and>
   get_last_user_text example_python
     [HumanMessage (PStr ''first''), AIMessage (PStr ''answer'') [],
      HumanMessage (PStr ''second''), AIMessage (PStr ''checking'') [example_call]] = ''second''"
  using system_prompt_rebuilt_not_sent
          [where n = 1 and env = "example_env 1" and q = "''list users''"
             and messages = "[HumanMessage (PStr ''list users''), AIMessage (PStr ''checking'') [example_call],
                ToolMessage (PStr ''users, orders'') ''call_1'']"
             and t = "''second''" and rest = "[AIMessage (PStr ''checking'') [example_call]]"
             and py = example_python
             and pre = "[HumanMessage (PStr ''first''), AIMessage (PStr ''answer'') []]"]
        example_entry echo_agent_node
  by (simp add: example_env_fields example_env_def)

end
